theory Spec2Isabelle
  imports Complex_Main "HOL-Library.Char_ord" "HOL-Library.List_Lexorder" "HOL-Library.Sublist"
    "HOL-Library.Log_Nat"
begin

section \<open>Data model\<close>

text \<open>
  The dashboard keeps one array of sales records and one filter object in the state of the
  \<^verbatim>\<open>Home\<close> component (\<^verbatim>\<open>app/page.tsx\<close>); the filtered array is handed to three chart
  components, each of which aggregates it on its own.

  Modelling conventions.
  \<^item> A JavaScript number is an IEEE binary64 value. A finite one is the rational it
    denotes (\<^typ>\<open>rat\<close>), and every \<^verbatim>\<open>+\<close>, \<^verbatim>\<open>-\<close> and \<^verbatim>\<open>*\<close> of the code is the exact
    operation followed by the rounding \<open>binary64\<close> defined below. Neither \<^verbatim>\<open>NaN\<close> nor the
    infinities are numbers of the declared fields. A value that may be \<^verbatim>\<open>undefined\<close> or
    \<^verbatim>\<open>NaN\<close> has type \<open>jsnum\<close>, with \<open>None\<close> for both (they behave alike in the arithmetic
    and in the truthiness tests used here).
  \<^item> A record is the declared type \<^verbatim>\<open>SalesData\<close>, whose ten named fields are strings and
    numbers, plus the four further keys the chart components read through its index
    signature (\<^verbatim>\<open>date\<close>, \<^verbatim>\<open>product\<close>, \<^verbatim>\<open>price\<close>, \<^verbatim>\<open>amount\<close>), which may be absent.
  \<^item> A string is a list of bytes; the default \<^verbatim>\<open>Array.prototype.sort\<close> order on strings
    (by code unit) is the lexicographic order on \<^typ>\<open>string\<close>.
  \<^item> An exception is a value \<open>Inl e\<close> of the result; \<open>Inr v\<close> is a normal return.
  \<^item> The date library (date-fns) and the \<^verbatim>\<open>Date\<close> constructor are not part of the
    repository. They are parameters of the functions that call them; instances are given
    below for use at concrete inputs.
\<close>

type_synonym jsnum = "rat option"

record SalesData =
  orderId :: string
  orderDate :: string
  productName :: string
  category :: string
  quantity :: rat
  unitPrice :: rat
  sales :: rat
  profit :: rat
  region :: string
  country :: string
  date :: "string option"
  product :: "string option"
  price :: jsnum
  amount :: jsnum

record Filters =
  range_start :: string
  range_end :: string
  filter_category :: string
  filter_region :: string

record Home =
  data :: "SalesData list"
  filters :: Filters

datatype error = RangeError | TypeError

section \<open>Numbers\<close>

text \<open>
  \<open>binary64 x\<close> is the double nearest to the rational \<open>x\<close>, the one with the even
  significand of two equally near ones. With \<open>2\<^sup>e \<le> |x| < 2\<^sup>e\<^sup>+\<^sup>1\<close> the doubles around
  \<open>x\<close> are the multiples of \<open>2\<^sup>e\<^sup>-\<^sup>5\<^sup>2\<close>; below \<open>2\<^sup>-\<^sup>1\<^sup>0\<^sup>2\<^sup>2\<close> they are the multiples of
  \<open>2\<^sup>-\<^sup>1\<^sup>0\<^sup>7\<^sup>4\<close>. The exponent \<open>e\<close> is found from the bit lengths of numerator and
  denominator. Overflow to an infinity (a magnitude of \<open>2\<^sup>1\<^sup>0\<^sup>2\<^sup>4\<close> or more) is not modelled:
  the statements that depend on a value being a double ask for it to be below that bound.
\<close>

definition pow2 :: "int \<Rightarrow> rat" where
  "pow2 d = (if 0 \<le> d then 2 ^ nat d else 1 / 2 ^ nat (- d))"

definition ilog2 :: "rat \<Rightarrow> int" where
  "ilog2 x =
     (case quotient_of x of (p, q) \<Rightarrow>
        if pow2 (bitlen p - bitlen q) \<le> x then bitlen p - bitlen q
        else bitlen p - bitlen q - 1)"

definition rne :: "rat \<Rightarrow> int" where
  "rne y =
     (if y - of_int \<lfloor>y\<rfloor> < 1 / 2 then \<lfloor>y\<rfloor>
      else if 1 / 2 < y - of_int \<lfloor>y\<rfloor> then \<lfloor>y\<rfloor> + 1
      else if even \<lfloor>y\<rfloor> then \<lfloor>y\<rfloor> else \<lfloor>y\<rfloor> + 1)"

definition binary64 :: "rat \<Rightarrow> rat" where
  "binary64 x =
     (if x = 0 then 0
      else of_int (rne (x / pow2 (max (ilog2 \<bar>x\<bar>) (- 1022) - 52))) *
           pow2 (max (ilog2 \<bar>x\<bar>) (- 1022) - 52))"

section \<open>The date library\<close>

text \<open>
  \<^verbatim>\<open>parseISO\<close> maps a string to a \<^verbatim>\<open>Date\<close>; the model keeps the time value of the
  result in a linear order \<open>'t\<close>, and \<open>None\<close> for an Invalid Date.

  \<^verbatim>\<open>isWithinInterval(date, {start, end})\<close> has two published behaviours. Up to version 2
  of the library it throws \<^verbatim>\<open>RangeError('Invalid interval')\<close> unless
  \<^verbatim>\<open>startTime <= endTime\<close> (so also when a bound is invalid) and otherwise returns
  \<^verbatim>\<open>time >= startTime && time <= endTime\<close>. From version 3 on it never throws: it sorts
  the two bounds and returns \<^verbatim>\<open>time >= lo && time <= hi\<close>, which is false when any of the
  three dates is invalid.
\<close>

definition isWithinInterval_v2 ::
  "('t::linorder) option \<Rightarrow> 't option \<Rightarrow> 't option \<Rightarrow> error + bool" where
  "isWithinInterval_v2 time startTime endTime =
     (case (startTime, endTime) of
        (Some s, Some e) \<Rightarrow>
          if \<not> s \<le> e then Inl RangeError
          else Inr (case time of Some t \<Rightarrow> s \<le> t \<and> t \<le> e | None \<Rightarrow> False)
      | _ \<Rightarrow> Inl RangeError)"

definition isWithinInterval_v3 ::
  "('t::linorder) option \<Rightarrow> 't option \<Rightarrow> 't option \<Rightarrow> error + bool" where
  "isWithinInterval_v3 time startTime endTime =
     Inr (case (time, startTime, endTime) of
            (Some t, Some s, Some e) \<Rightarrow> min s e \<le> t \<and> t \<le> max s e
          | _ \<Rightarrow> False)"

text \<open>
  A parser for the calendar dates \<^verbatim>\<open>yyyy-MM-dd\<close>, the format the date inputs of the page
  produce. The time value of a valid date is the number \<open>yyyymmdd\<close>, which orders dates
  chronologically; a string of another shape, a month outside 1..12 or a day the month
  does not have is an Invalid Date. It serves as an instance of the parameters
  \<open>parseISO\<close> and \<open>dayOf\<close> at the concrete inputs below and nowhere else: the library
  reads further forms of date, and \<^verbatim>\<open>format\<close> gives the day in local time.
\<close>

definition digit :: "char \<Rightarrow> int option" where
  "digit c = map_of
     [(CHR ''0'', 0), (CHR ''1'', 1), (CHR ''2'', 2), (CHR ''3'', 3), (CHR ''4'', 4),
      (CHR ''5'', 5), (CHR ''6'', 6), (CHR ''7'', 7), (CHR ''8'', 8), (CHR ''9'', 9)] c"

fun digits :: "string \<Rightarrow> int \<Rightarrow> int option" where
  "digits [] acc = Some acc"
| "digits (c # cs) acc = (case digit c of None \<Rightarrow> None | Some d \<Rightarrow> digits cs (10 * acc + d))"

definition daysInMonth :: "int \<Rightarrow> int \<Rightarrow> int" where
  "daysInMonth y m =
     (if m = 2 then (if y mod 400 = 0 \<or> (y mod 4 = 0 \<and> y mod 100 \<noteq> 0) then 29 else 28)
      else if m = 4 \<or> m = 6 \<or> m = 9 \<or> m = 11 then 30 else 31)"

definition parse_ymd :: "string \<Rightarrow> int option" where
  "parse_ymd s =
     (if length s = 10 \<and> s ! 4 = CHR ''-'' \<and> s ! 7 = CHR ''-'' then
        (case (digits (take 4 s) 0, digits (take 2 (drop 5 s)) 0, digits (drop 8 s) 0) of
           (Some y, Some m, Some d) \<Rightarrow>
             if 1 \<le> m \<and> m \<le> 12 \<and> 1 \<le> d \<and> d \<le> daysInMonth y m
             then Some ((y * 100 + m) * 100 + d) else None
         | _ \<Rightarrow> None)
      else None)"

section \<open>Filter (\<^verbatim>\<open>filteredData\<close> in \<^verbatim>\<open>app/page.tsx\<close>)\<close>

text \<open>
  The callback of \<^verbatim>\<open>data.filter\<close>. The date test runs only when both bounds are non-empty
  strings; the exception of \<^verbatim>\<open>isWithinInterval\<close>, if any, leaves the callback.
\<close>

definition category_region_test :: "Filters \<Rightarrow> SalesData \<Rightarrow> bool" where
  "category_region_test f item =
     (if filter_category f \<noteq> '''' \<and> category item \<noteq> filter_category f then False
      else if filter_region f \<noteq> '''' \<and> region item \<noteq> filter_region f then False
      else True)"

definition keep ::
  "('t option \<Rightarrow> 't option \<Rightarrow> 't option \<Rightarrow> error + bool) \<Rightarrow> (string \<Rightarrow> 't option) \<Rightarrow>
   Filters \<Rightarrow> SalesData \<Rightarrow> error + bool" where
  "keep isWithinInterval parseISO f item =
     (if range_start f \<noteq> '''' \<and> range_end f \<noteq> '''' then
        (case isWithinInterval (parseISO (orderDate item))
                (parseISO (range_start f)) (parseISO (range_end f)) of
           Inl e \<Rightarrow> Inl e
         | Inr inside \<Rightarrow> if \<not> inside then Inr False else Inr (category_region_test f item))
      else Inr (category_region_test f item))"

text \<open>\<^verbatim>\<open>Array.prototype.filter\<close> with a callback that may throw: the first exception ends it.\<close>

fun array_filter :: "('a \<Rightarrow> error + bool) \<Rightarrow> 'a list \<Rightarrow> error + 'a list" where
  "array_filter p [] = Inr []"
| "array_filter p (x # xs) =
     (case p x of
        Inl e \<Rightarrow> Inl e
      | Inr b \<Rightarrow>
          (case array_filter p xs of
             Inl e \<Rightarrow> Inl e
           | Inr ys \<Rightarrow> Inr (if b then x # ys else ys)))"

definition filteredData ::
  "('t option \<Rightarrow> 't option \<Rightarrow> 't option \<Rightarrow> error + bool) \<Rightarrow> (string \<Rightarrow> 't option) \<Rightarrow>
   SalesData list \<Rightarrow> Filters \<Rightarrow> error + SalesData list" where
  "filteredData isWithinInterval parseISO records f =
     array_filter (keep isWithinInterval parseISO f) records"

section \<open>Facets (\<^verbatim>\<open>categories\<close> and \<^verbatim>\<open>regions\<close> in \<^verbatim>\<open>app/page.tsx\<close>)\<close>

text \<open>
  A \<^verbatim>\<open>Set\<close> keeps its elements in insertion order; \<^verbatim>\<open>add\<close> of an element already present
  changes nothing. \<^verbatim>\<open>Array.from(set).sort()\<close> sorts the elements as strings.
\<close>

definition set_add :: "'a \<Rightarrow> 'a list \<Rightarrow> 'a list" where
  "set_add x xs = (if x \<in> set xs then xs else xs @ [x])"

definition facet_step :: "string list \<times> string list \<Rightarrow> SalesData \<Rightarrow> string list \<times> string list" where
  "facet_step acc item =
     (case acc of (cats, regs) \<Rightarrow>
        (if category item \<noteq> '''' then set_add (category item) cats else cats,
         if region item \<noteq> '''' then set_add (region item) regs else regs))"

record Facets =
  categories :: "string list"
  regions :: "string list"

definition deriveFacets :: "SalesData list \<Rightarrow> Facets" where
  "deriveFacets records =
     (case foldl facet_step ([], []) records of (cats, regs) \<Rightarrow>
        \<lparr>categories = sort cats, regions = sort regs\<rparr>)"

text \<open>
  The two derived views of the component state: the facets are memoised on \<^verbatim>\<open>data\<close>
  alone, the filtered array on \<^verbatim>\<open>data\<close> and \<^verbatim>\<open>filters\<close>.
\<close>

definition Home_facets :: "Home \<Rightarrow> Facets" where
  "Home_facets h = deriveFacets (data h)"

definition Home_filteredData ::
  "('t option \<Rightarrow> 't option \<Rightarrow> 't option \<Rightarrow> error + bool) \<Rightarrow> (string \<Rightarrow> 't option) \<Rightarrow>
   Home \<Rightarrow> error + SalesData list" where
  "Home_filteredData isWithinInterval parseISO h =
     filteredData isWithinInterval parseISO (data h) (filters h)"

section \<open>Time series (\<^verbatim>\<open>processData\<close> in \<^verbatim>\<open>components/charts/sales-trend.tsx\<close>)\<close>

text \<open>
  \<open>dayOf\<close> stands for \<^verbatim>\<open>format(new Date(date), 'yyyy-MM-dd')\<close>: \<open>None\<close> when the string
  gives an Invalid Date, for which \<^verbatim>\<open>format\<close> throws \<^verbatim>\<open>RangeError('Invalid time value')\<close>,
  otherwise the calendar day, in a linear order \<open>'d\<close> that is the order of
  \<^verbatim>\<open>new Date(key).getTime()\<close> on the formatted keys.
  \<^verbatim>\<open>dailyData\<close> is an object keyed by the formatted day; its values come out of
  \<^verbatim>\<open>Object.values\<close> in the order the keys were created, so it is a list of buckets.
\<close>

record 'd bucket =
  day_date :: 'd
  day_sales :: rat
  day_profit :: rat
  day_revenue :: rat

definition dateOf :: "SalesData \<Rightarrow> string" where
  "dateOf item = (case date item of
                    Some s \<Rightarrow> if s \<noteq> '''' then s else orderDate item
                  | None \<Rightarrow> orderDate item)"

definition saleAmount :: "SalesData \<Rightarrow> rat" where
  "saleAmount item =
     (if sales item \<noteq> 0 then sales item
      else case amount item of Some a \<Rightarrow> if a \<noteq> 0 then a else 0 | None \<Rightarrow> 0)"

definition profitAmount :: "SalesData \<Rightarrow> rat" where
  "profitAmount item = (if profit item \<noteq> 0 then profit item else 0)"

fun add_day :: "'d \<Rightarrow> rat \<Rightarrow> rat \<Rightarrow> 'd bucket list \<Rightarrow> 'd bucket list" where
  "add_day k s p [] =
     [\<lparr>day_date = k, day_sales = binary64 (0 + s), day_profit = binary64 (0 + p),
       day_revenue = binary64 (0 + binary64 (s - p))\<rparr>]"
| "add_day k s p (b # bs) =
     (if day_date b = k
      then b\<lparr>day_sales := binary64 (day_sales b + s),
             day_profit := binary64 (day_profit b + p),
             day_revenue := binary64 (day_revenue b + binary64 (s - p))\<rparr> # bs
      else b # add_day k s p bs)"

fun forEach_day ::
  "(string \<Rightarrow> 'd option) \<Rightarrow> SalesData list \<Rightarrow> 'd bucket list \<Rightarrow> error + 'd bucket list" where
  "forEach_day dayOf [] dailyData = Inr dailyData"
| "forEach_day dayOf (item # items) dailyData =
     (if dateOf item = '''' then forEach_day dayOf items dailyData
      else case dayOf (dateOf item) of
             None \<Rightarrow> Inl RangeError
           | Some dateKey \<Rightarrow>
               forEach_day dayOf items
                 (add_day dateKey (saleAmount item) (profitAmount item) dailyData))"

definition processData ::
  "(string \<Rightarrow> ('d::linorder) option) \<Rightarrow> SalesData list \<Rightarrow> error + 'd bucket list" where
  "processData dayOf records =
     (if records = [] then Inr []
      else case forEach_day dayOf records [] of
             Inl e \<Rightarrow> Inl e
           | Inr dailyData \<Rightarrow> Inr (sort_key day_date dailyData))"

text \<open>
  The spec's reading of a bucket: revenue is not accumulated but recomputed from the
  bucket's totals as sales minus profit, one subtraction of two numbers.
\<close>

definition spec_revenue :: "'d bucket \<Rightarrow> rat" where
  "spec_revenue b = binary64 (day_sales b - day_profit b)"

section \<open>Top products (\<^verbatim>\<open>topProducts\<close> in the top-products chart)\<close>

text \<open>
  \<^verbatim>\<open>reduce\<close> keeps an array of groups; \<^verbatim>\<open>find\<close> returns the first group with the same
  \<^verbatim>\<open>product\<close> (two absent products are equal), which is updated in place, otherwise a new
  group is pushed. \<^verbatim>\<open>item.quantity * item.price\<close> is \<^verbatim>\<open>NaN\<close> when the price is absent.
\<close>

definition jmul :: "rat \<Rightarrow> jsnum \<Rightarrow> jsnum" where
  "jmul x y = (case y of None \<Rightarrow> None | Some v \<Rightarrow> Some (binary64 (x * v)))"

definition jadd :: "jsnum \<Rightarrow> jsnum \<Rightarrow> jsnum" where
  "jadd x y = (case (x, y) of (Some u, Some v) \<Rightarrow> Some (binary64 (u + v)) | _ \<Rightarrow> None)"

record product_group =
  top_product :: "string option"
  top_quantity :: rat
  top_sales :: jsnum

fun reduce_step :: "product_group list \<Rightarrow> SalesData \<Rightarrow> product_group list" where
  "reduce_step [] item =
     [\<lparr>top_product = product item, top_quantity = quantity item,
       top_sales = jmul (quantity item) (price item)\<rparr>]"
| "reduce_step (p # acc) item =
     (if top_product p = product item
      then p\<lparr>top_quantity := binary64 (top_quantity p + quantity item),
             top_sales := jadd (top_sales p) (jmul (quantity item) (price item))\<rparr> # acc
      else p # reduce_step acc item)"

text \<open>
  \<^verbatim>\<open>sort((a, b) => b.quantity - a.quantity)\<close>: the sort is stable and the comparator is a
  consistent descending order on numbers, so the result is the stable sort by the negated
  quantity.
\<close>

definition ranking :: "SalesData list \<Rightarrow> product_group list" where
  "ranking records = sort_key (\<lambda>p. - top_quantity p) (foldl reduce_step [] records)"

definition limit :: "bool \<Rightarrow> nat" where
  "limit isMobile = (if isMobile then 5 else 10)"

definition processed :: "bool \<Rightarrow> SalesData list \<Rightarrow> product_group list" where
  "processed isMobile records = take (limit isMobile) (ranking records)"

text \<open>
  The computation is the callback of \<^verbatim>\<open>useMemo\<close>, and \<^verbatim>\<open>useMemo\<close> is whatever the module
  imports under that name: \<open>None\<close> when the binding is undefined, so that the call throws a
  \<^verbatim>\<open>TypeError\<close> before the callback runs, otherwise the hook. The hook of React returns the
  value of the callback. The file imports the name from \<^verbatim>\<open>recharts\<close>, which exports none.
\<close>

type_synonym 'a hook = "(unit \<Rightarrow> 'a) \<Rightarrow> 'a"


definition recharts_useMemo :: "'a hook option" where
  "recharts_useMemo = None"

definition topProducts ::
  "product_group list hook option \<Rightarrow> bool \<Rightarrow> SalesData list \<Rightarrow> error + product_group list" where
  "topProducts useMemo isMobile records =
     (case useMemo of
        None \<Rightarrow> Inl TypeError
      | Some hook \<Rightarrow>
          Inr (hook (\<lambda>_. if isMobile then rev (processed isMobile records)
                          else processed isMobile records)))"

section \<open>Regional sales (\<^verbatim>\<open>chartData\<close> of \<^verbatim>\<open>RegionalSales\<close>)\<close>

text \<open>
  \<^verbatim>\<open>regionMap\<close> is a plain object used as a dictionary, so a lookup also sees what the
  object inherits from \<^verbatim>\<open>Object.prototype\<close>. For a region named like an inherited
  method the test \<^verbatim>\<open>!acc[region]\<close> finds the method, \<^verbatim>\<open>+=\<close> stores the concatenation of
  its source text and the number, and the entry is a string from then on (\<open>StrV\<close>);
  \<^verbatim>\<open>value.toFixed\<close> is then not a function and the \<^verbatim>\<open>map\<close> throws a \<^verbatim>\<open>TypeError\<close>.
  For the region \<^verbatim>\<open>__proto__\<close> the assignment reaches the inherited setter, which ignores
  a string, and nothing is stored. The own properties are a list in creation order.
\<close>

datatype cell = NumV rat | StrV

definition inherited :: "string \<Rightarrow> bool" where
  "inherited k = (k \<in> set
     [''constructor'', ''toString'', ''toLocaleString'', ''valueOf'', ''hasOwnProperty'',
      ''isPrototypeOf'', ''propertyIsEnumerable'', ''__defineGetter__'', ''__defineSetter__'',
      ''__lookupGetter__'', ''__lookupSetter__''])"

fun assign :: "string \<Rightarrow> cell \<Rightarrow> (string \<times> cell) list \<Rightarrow> (string \<times> cell) list" where
  "assign k v [] = [(k, v)]"
| "assign k v (e # es) = (if fst e = k then (k, v) # es else e # assign k v es)"

definition regionOf :: "SalesData \<Rightarrow> string" where
  "regionOf item = (if region item \<noteq> '''' then region item else ''Unknown'')"

definition lineTotal :: "SalesData \<Rightarrow> rat" where
  "lineTotal item =
     binary64
       ((case price item of Some p \<Rightarrow> if p \<noteq> 0 then p else 0 | None \<Rightarrow> 0) *
        (if quantity item \<noteq> 0 then quantity item else 0))"

definition regionMap_step :: "(string \<times> cell) list \<Rightarrow> SalesData \<Rightarrow> (string \<times> cell) list" where
  "regionMap_step acc item =
     (if regionOf item = ''__proto__'' then acc
      else case map_of acc (regionOf item) of
             None \<Rightarrow>
               if inherited (regionOf item) then assign (regionOf item) StrV acc
               else assign (regionOf item) (NumV (binary64 (0 + lineTotal item))) acc
           | Some (NumV v) \<Rightarrow>
               assign (regionOf item) (NumV (binary64 (v + lineTotal item))) acc
           | Some StrV \<Rightarrow> assign (regionOf item) StrV acc)"

definition regionMap :: "SalesData list \<Rightarrow> (string \<times> cell) list" where
  "regionMap records = foldl regionMap_step [] records"

text \<open>
  \<^verbatim>\<open>Object.entries\<close> lists the keys that are array indices (canonical decimal numerals
  up to \<open>2\<^sup>3\<^sup>2 - 2\<close>) first, in ascending numeric order, then the other keys in creation
  order.
\<close>

definition is_index :: "string \<Rightarrow> bool" where
  "is_index k =
     (case digits k 0 of
        None \<Rightarrow> False
      | Some n \<Rightarrow> k \<noteq> [] \<and> (k = ''0'' \<or> hd k \<noteq> CHR ''0'') \<and> n \<le> 4294967294)"

definition index_val :: "string \<Rightarrow> int" where
  "index_val k = (case digits k 0 of None \<Rightarrow> 0 | Some n \<Rightarrow> n)"

definition entries :: "(string \<times> 'v) list \<Rightarrow> (string \<times> 'v) list" where
  "entries obj =
     sort_key (\<lambda>e. index_val (fst e)) (filter (\<lambda>e. is_index (fst e)) obj) @
     filter (\<lambda>e. \<not> is_index (fst e)) obj"

text \<open>
  \<^verbatim>\<open>Number(x.toFixed(2))\<close>: the multiple of \<open>1/100\<close> nearest to the exact value of the
  double \<open>x\<close>, the larger in magnitude of two equally near ones (\<^verbatim>\<open>toFixed\<close> rounds the
  absolute value and puts the sign back). From \<open>10\<^sup>2\<^sup>1\<close> on \<^verbatim>\<open>toFixed\<close> does not round, but
  every floating-point number of that size is whole, so that rounding leaves it as it is.
  An output value is kept as the two-decimal number that the string of \<^verbatim>\<open>toFixed\<close>
  denotes, and the values of the displayed entries are added as such numbers.
\<close>

definition toFixed2 :: "rat \<Rightarrow> rat" where
  "toFixed2 x =
     (if x < 0 then - (of_int \<lfloor>(- x) * 100 + 1 / 2\<rfloor> / 100)
      else of_int \<lfloor>x * 100 + 1 / 2\<rfloor> / 100)"

record ChartData =
  chart_name :: string
  chart_value :: rat

fun map_entries :: "(string \<times> cell) list \<Rightarrow> error + ChartData list" where
  "map_entries [] = Inr []"
| "map_entries ((name, StrV) # es) = Inl TypeError"
| "map_entries ((name, NumV v) # es) =
     (case map_entries es of
        Inl e \<Rightarrow> Inl e
      | Inr cs \<Rightarrow> Inr (\<lparr>chart_name = name, chart_value = toFixed2 v\<rparr> # cs))"

definition sortedData :: "SalesData list \<Rightarrow> error + ChartData list" where
  "sortedData records =
     (case map_entries (entries (regionMap records)) of
        Inl e \<Rightarrow> Inl e
      | Inr cs \<Rightarrow> Inr (sort_key (\<lambda>c. - chart_value c) cs))"

definition chartData :: "bool \<Rightarrow> SalesData list \<Rightarrow> error + ChartData list" where
  "chartData isMobile records =
     (if records = [] then Inr []
      else case sortedData records of
             Inl e \<Rightarrow> Inl e
           | Inr sd \<Rightarrow>
               if isMobile \<and> length sd > 5 then
                 Inr (take 4 sd @
                      [\<lparr>chart_name = ''Other'',
                        chart_value =
                          toFixed2 (foldl (\<lambda>sum region. sum + chart_value region) 0 (drop 4 sd))\<rparr>])
               else Inr sd)"

section \<open>Notions used in the statements\<close>

text \<open>
  The value a number variable holds after \<^verbatim>\<open>+=\<close> of the numbers \<open>xs\<close> in order, starting
  from \<open>a\<close>; and the same where the variable starts as the first number of the list.
\<close>

definition accumulate :: "rat \<Rightarrow> rat list \<Rightarrow> rat" where
  "accumulate a xs = foldl (\<lambda>v x. binary64 (v + x)) a xs"


text \<open>
  A number that is a finite double as it stands (rounding leaves it alone and its
  magnitude is below \<open>2\<^sup>1\<^sup>0\<^sup>2\<^sup>4\<close>); and a list of records of which every
  subsequence has a sum of \<open>f\<close> that is one, so that no addition of such numbers, in
  any grouping that keeps the order, is changed by rounding.
\<close>

definition exact :: "rat \<Rightarrow> bool" where
  "exact x = (binary64 x = x \<and> (if x = 0 then True else ilog2 \<bar>x\<bar> < 1024))"

definition exact_sums :: "('a \<Rightarrow> rat) \<Rightarrow> 'a list \<Rightarrow> bool" where
  "exact_sums f xs = list_all (\<lambda>ys. exact (sum_list (map f ys))) (subseqs xs)"

text \<open>
  The day a record is counted under, if any: none for a record without a date; and the
  records of a day.
\<close>

definition dayKey :: "(string \<Rightarrow> 'd option) \<Rightarrow> SalesData \<Rightarrow> 'd option" where
  "dayKey dayOf item = (if dateOf item = '''' then None else dayOf (dateOf item))"

definition on_day :: "(string \<Rightarrow> 'd option) \<Rightarrow> 'd \<Rightarrow> SalesData list \<Rightarrow> SalesData list" where
  "on_day dayOf k records = filter (\<lambda>item. dayKey dayOf item = Some k) records"







section \<open>Example inputs\<close>

text \<open>
  Records and filter objects used where a statement is evaluated at a concrete input. A
  decimal literal \<open>d\<close> of the input denotes the number \<open>binary64 d\<close>.
\<close>

definition blank :: SalesData where
  "blank = \<lparr>orderId = '''', orderDate = '''', productName = '''', category = '''',
            quantity = 0, unitPrice = 0, sales = 0, profit = 0, region = '''', country = '''',
            date = None, product = None, price = None, amount = None\<rparr>"

definition order :: "string \<Rightarrow> string \<Rightarrow> string \<Rightarrow> SalesData" where
  "order d c r = blank\<lparr>orderDate := d, category := c, region := r\<rparr>"

definition sale :: "string \<Rightarrow> rat \<Rightarrow> rat \<Rightarrow> SalesData" where
  "sale d s p = blank\<lparr>orderDate := d, sales := s, profit := p\<rparr>"


definition line :: "string \<Rightarrow> rat \<Rightarrow> rat \<Rightarrow> SalesData" where
  "line r p q = blank\<lparr>region := r, price := Some p, quantity := q\<rparr>"


definition january :: Filters where
  "january = \<lparr>range_start = ''2024-01-01'', range_end = ''2024-01-31'',
              filter_category = '''', filter_region = ''''\<rparr>"

definition inverted :: Filters where
  "inverted = \<lparr>range_start = ''2024-01-31'', range_end = ''2024-01-01'',
               filter_category = '''', filter_region = ''''\<rparr>"

definition no_dates :: Filters where
  "no_dates = \<lparr>range_start = '''', range_end = ''2024-01-01'',
               filter_category = ''Toys'', filter_region = ''''\<rparr>"

definition three_sales :: "SalesData list" where
  "three_sales =
     [sale ''2024-01-02'' (11 / 2) 1, sale ''2024-01-01'' (41 / 4) 2, sale ''2024-01-01'' 20 3]"

definition cent_sales :: "SalesData list" where
  "cent_sales =
     [sale ''2024-01-01'' (binary64 (60242 / 100)) 0, sale ''2024-01-02'' (binary64 (37983 / 100)) 0,
      sale ''2024-01-01'' (binary64 (2817 / 100)) 0]"

definition cent_buckets :: "int bucket list" where
  "cent_buckets =
     [\<lparr>day_date = 20240101, day_sales = binary64 (6305899999999999 / 10000000000000),
       day_profit = 0, day_revenue = binary64 (6305899999999999 / 10000000000000)\<rparr>,
      \<lparr>day_date = 20240102, day_sales = binary64 (37983 / 100),
       day_profit = 0, day_revenue = binary64 (37983 / 100)\<rparr>]"

definition same_day_sales :: "SalesData list" where
  "same_day_sales =
     [sale ''2024-01-01'' (binary64 (45081 / 100)) (binary64 (354 / 100)),
      sale ''2024-01-01'' (binary64 (137 / 10)) (binary64 (5437 / 100))]"





definition shop :: Home where
  "shop = \<lparr>data = [order ''2024-01-10'' ''Toys'' ''West'', order ''2024-01-11'' '''' ''East'',
                    order ''2024-02-01'' ''Books'' '''', order ''2024-02-02'' ''Toys'' ''East''],
            filters = january\<rparr>"

section \<open>Properties of sums and of rounding\<close>

lemma sum_list_insort_key:
  "sum_list (map f (insort_key k x xs)) = (f x :: rat) + sum_list (map f xs)"
  by (induction xs) auto

lemma sum_list_sort_key:
  "sum_list (map f (sort_key k xs)) = (sum_list (map f xs) :: rat)"
  by (induction xs) (auto simp: sum_list_insort_key)

lemma sum_fibers:
  "finite A \<Longrightarrow> g ` set xs \<subseteq> A \<Longrightarrow>
   (\<Sum>r\<in>A. sum_list (map f (filter (\<lambda>x. g x = r) xs))) = (sum_list (map f xs) :: rat)"
proof (induction xs)
  case Nil
  then show ?case by simp
next
  case (Cons x xs)
  have "(\<Sum>r\<in>A. sum_list (map f (filter (\<lambda>y. g y = r) (x # xs)))) =
        (\<Sum>r\<in>A. (if r = g x then f x else 0) + sum_list (map f (filter (\<lambda>y. g y = r) xs)))"
    by (rule sum.cong) auto
  also have "\<dots> = (\<Sum>r\<in>A. if r = g x then f x else 0) +
                   (\<Sum>r\<in>A. sum_list (map f (filter (\<lambda>y. g y = r) xs)))"
    by (rule sum.distrib)
  also have "(\<Sum>r\<in>A. if r = g x then f x else 0) = f x"
    using Cons.prems by (simp add: sum.delta)
  finally show ?case using Cons by simp
qed

lemma accumulate_snoc: "accumulate a (xs @ [x]) = binary64 (accumulate a xs + x)"
  by (simp add: accumulate_def)

lemma accumulate_Nil: "accumulate a [] = a"
  by (simp add: accumulate_def)

lemma exact_sumsD:
  "exact_sums f xs \<Longrightarrow> subseq ys xs \<Longrightarrow> binary64 (sum_list (map f ys)) = sum_list (map f ys)"
  by (simp add: exact_sums_def exact_def list_all_iff)

lemma exact_sums_single:
  "exact_sums f xs \<Longrightarrow> x \<in> set xs \<Longrightarrow> binary64 (f x) = f x"
proof -
  assume e: "exact_sums f xs" and "x \<in> set xs"
  then have "subseq [x] xs" by (simp add: subseq_singleton_left)
  from exact_sumsD [OF e this] show ?thesis by simp
qed

lemma accumulate_exact:
  "(\<And>n. binary64 (sum_list (take n zs)) = sum_list (take n zs)) \<Longrightarrow>
   accumulate 0 zs = sum_list zs"
proof (induction zs rule: rev_induct)
  case Nil
  show ?case by (simp add: accumulate_Nil)
next
  case (snoc z zs)
  have "binary64 (sum_list (take n zs)) = sum_list (take n zs)" for n
  proof (cases "n \<le> length zs")
    case True
    with snoc.prems [of n] show ?thesis by simp
  next
    case False
    with snoc.prems [of "length zs"] show ?thesis by simp
  qed
  then have "accumulate 0 zs = sum_list zs" by (rule snoc.IH)
  moreover have "binary64 (sum_list (zs @ [z])) = sum_list (zs @ [z])"
    using snoc.prems [of "Suc (length zs)"] by simp
  ultimately show ?case by (simp add: accumulate_snoc)
qed

lemma accumulate_exact_sums:
  assumes "exact_sums f xs" and "subseq ys xs"
  shows "accumulate 0 (map (\<lambda>x. binary64 (f x)) ys) = sum_list (map f ys)"
proof -
  have mem: "x \<in> set xs" if "x \<in> set ys" for x
    using that assms(2) by (meson subseq_singleton_left subseq_order.order_trans)
  have same: "map (\<lambda>x. binary64 (f x)) ys = map f ys"
    using exact_sums_single [OF assms(1)] mem by simp
  have "binary64 (sum_list (take n (map f ys))) = sum_list (take n (map f ys))" for n
  proof -
    have "subseq (take n ys) xs"
      using assms(2) by (meson prefix_imp_subseq subseq_order.order_trans take_is_prefix)
    from exact_sumsD [OF assms(1) this] show ?thesis by (simp add: take_map)
  qed
  then have "accumulate 0 (map f ys) = sum_list (map f ys)"
    by (rule accumulate_exact)
  then show ?thesis by (simp only: same)
qed

lemma accumulate_plain_exact_sums:
  assumes "exact_sums f xs" and "subseq ys xs"
  shows "accumulate 0 (map f ys) = sum_list (map f ys)"
proof -
  have mem: "x \<in> set xs" if "x \<in> set ys" for x
    using that assms(2) by (meson subseq_singleton_left subseq_order.order_trans)
  have same: "map (\<lambda>x. binary64 (f x)) ys = map f ys"
    using exact_sums_single [OF assms(1)] mem by simp
  from accumulate_exact_sums [OF assms] show ?thesis by (simp only: same)
qed

section \<open>Properties of the filter\<close>

lemma array_filter_Inr:
  "array_filter p xs = Inr ys \<Longrightarrow> ys = filter (\<lambda>x. p x = Inr True) xs"
proof (induction xs arbitrary: ys)
  case Nil
  then show ?case by simp
next
  case (Cons x xs)
  then show ?case by (auto split: sum.splits if_splits)
qed

lemma array_filter_total:
  "(\<And>x. x \<in> set xs \<Longrightarrow> p x = Inr (q x)) \<Longrightarrow> array_filter p xs = Inr (filter q xs)"
  by (induction xs) auto

lemma array_filter_again:
  "array_filter p xs = Inr ys \<Longrightarrow> array_filter p ys = Inr ys"
proof -
  assume a: "array_filter p xs = Inr ys"
  have "\<And>x. x \<in> set ys \<Longrightarrow> p x = Inr True"
    using array_filter_Inr [OF a] by simp
  then have "array_filter p ys = Inr (filter (\<lambda>x. True) ys)"
    by (rule array_filter_total)
  then show ?thesis by simp
qed

text \<open>
  C7: filtering the filtered array again with the same filter object changes nothing. When
  the first pass throws, so does the composition, with the same exception; when it returns
  an array, the second pass returns that array. This holds for every behaviour of the date
  library.
\<close>

theorem filter_idempotent:
  "(case filteredData isWithinInterval parseISO records f of
      Inl e \<Rightarrow> Inl e
    | Inr ys \<Rightarrow> filteredData isWithinInterval parseISO ys f) =
   filteredData isWithinInterval parseISO records f"
  unfolding filteredData_def
  by (cases "array_filter (keep isWithinInterval parseISO f) records")
     (simp_all add: array_filter_again)

text \<open>At a concrete input: two orders, one in January; the January order survives both passes.\<close>

theorem filter_idempotent_witness:
  "filteredData isWithinInterval_v2 parse_ymd
     [order ''2024-01-10'' ''Toys'' ''East'', order ''2024-02-10'' ''Toys'' ''East''] january =
   Inr [order ''2024-01-10'' ''Toys'' ''East''] \<and>
   filteredData isWithinInterval_v2 parse_ymd [order ''2024-01-10'' ''Toys'' ''East''] january =
   Inr [order ''2024-01-10'' ''Toys'' ''East'']"
proof -
  have "filteredData isWithinInterval_v2 parse_ymd
     [order ''2024-01-10'' ''Toys'' ''East'', order ''2024-02-10'' ''Toys'' ''East''] january =
   Inr [order ''2024-01-10'' ''Toys'' ''East'']"
    by code_simp
  then show ?thesis
    using filter_idempotent [where isWithinInterval = isWithinInterval_v2
        and parseISO = parse_ymd and f = january
        and records = "[order ''2024-01-10'' ''Toys'' ''East'',
                        order ''2024-02-10'' ''Toys'' ''East'']"]
    by simp
qed

text \<open>
  C10: when either bound of the date range is the empty string, no date test is made: the
  result is exactly the records that pass the category and region tests, whatever their
  order dates and whatever the date library does.
\<close>

theorem filter_empty_bound:
  assumes "range_start f = '''' \<or> range_end f = ''''"
  shows "filteredData isWithinInterval parseISO records f =
         Inr (filter (category_region_test f) records)"
proof -
  have "\<And>item. keep isWithinInterval parseISO f item = Inr (category_region_test f item)"
    using assms by (auto simp: keep_def)
  then show ?thesis
    unfolding filteredData_def by (intro array_filter_total) simp
qed

text \<open>
  At a concrete input: the start bound is empty and the category is \<^verbatim>\<open>Toys\<close>; the order
  with an unparseable date passes, the one of another category does not.
\<close>

theorem filter_empty_bound_witness:
  "(range_start no_dates = '''' \<or> range_end no_dates = '''') \<and>
   filteredData isWithinInterval_v2 parse_ymd
     [order ''2024-01-10'' ''Toys'' ''East'', order ''not a date'' ''Toys'' ''West'',
      order ''2024-02-10'' ''Books'' ''East''] no_dates =
   Inr [order ''2024-01-10'' ''Toys'' ''East'', order ''not a date'' ''Toys'' ''West'']"
proof -
  have h: "range_start no_dates = '''' \<or> range_end no_dates = ''''"
    by (simp add: no_dates_def)
  have ev: "filter (category_region_test no_dates)
     [order ''2024-01-10'' ''Toys'' ''East'', order ''not a date'' ''Toys'' ''West'',
      order ''2024-02-10'' ''Books'' ''East''] =
     [order ''2024-01-10'' ''Toys'' ''East'', order ''not a date'' ''Toys'' ''West'']"
    by code_simp
  show ?thesis
    using h ev filter_empty_bound [OF h, where isWithinInterval = isWithinInterval_v2
      and parseISO = parse_ymd and records =
      "[order ''2024-01-10'' ''Toys'' ''East'', order ''not a date'' ''Toys'' ''West'',
        order ''2024-02-10'' ''Books'' ''East'']"]
    by simp
qed

text \<open>
  An inverted range does not give the empty array. With the range 2024-01-31 to 2024-01-01
  and one order of 2024-01-10, the filter throws under the throwing behaviour of
  \<^verbatim>\<open>isWithinInterval\<close> and returns the order under the sorting behaviour.
\<close>

theorem filter_inverted_range_counterexample:
  "filteredData isWithinInterval_v2 parse_ymd [order ''2024-01-10'' ''Toys'' ''East''] inverted =
     Inl RangeError \<and>
   filteredData isWithinInterval_v3 parse_ymd [order ''2024-01-10'' ''Toys'' ''East''] inverted =
     Inr [order ''2024-01-10'' ''Toys'' ''East'']"
  by code_simp

text \<open>
  C4 (as amended): the filter has no test of its own for an inverted range; with two
  non-empty, valid bounds and start after end the result is what \<^verbatim>\<open>isWithinInterval\<close>
  makes of it. Under the throwing behaviour the empty array is returned for the empty
  input only, and any other input ends in \<^verbatim>\<open>RangeError\<close> at its first record; under the
  sorting behaviour the result is the records dated between end and start, inclusive, that
  pass the category and region tests.
\<close>

theorem filter_inverted_range:
  assumes "range_start f \<noteq> ''''" and "range_end f \<noteq> ''''"
    and "parseISO (range_start f) = Some s" and "parseISO (range_end f) = Some e"
    and "e < s"
  shows "filteredData isWithinInterval_v2 parseISO [] f = Inr [] \<and>
         filteredData isWithinInterval_v2 parseISO (item # rest) f = Inl RangeError \<and>
         filteredData isWithinInterval_v3 parseISO records f =
           Inr (filter (\<lambda>item. (case parseISO (orderDate item) of
                                   Some t \<Rightarrow> e \<le> t \<and> t \<le> s | None \<Rightarrow> False) \<and>
                                category_region_test f item) records)"
proof -
  have ns: "\<not> s \<le> e" using assms(5) by simp
  have v2: "keep isWithinInterval_v2 parseISO f item = Inl RangeError"
    using assms(1-4) ns by (simp add: keep_def isWithinInterval_v2_def)
  have v3: "\<And>item. keep isWithinInterval_v3 parseISO f item =
              Inr ((case parseISO (orderDate item) of
                      Some t \<Rightarrow> e \<le> t \<and> t \<le> s | None \<Rightarrow> False) \<and>
                   category_region_test f item)"
    using assms
    by (auto simp: keep_def isWithinInterval_v3_def min_def max_def split: option.splits)
  have r3: "array_filter (keep isWithinInterval_v3 parseISO f) records =
           Inr (filter (\<lambda>item. (case parseISO (orderDate item) of
                                   Some t \<Rightarrow> e \<le> t \<and> t \<le> s | None \<Rightarrow> False) \<and>
                                category_region_test f item) records)"
    by (rule array_filter_total) (rule v3)
  show ?thesis
    unfolding filteredData_def using v2 r3 by simp
qed

text \<open>At a concrete input: the inverted January range and two orders.\<close>

theorem filter_inverted_range_witness:
  "filteredData isWithinInterval_v2 parse_ymd [] inverted = Inr [] \<and>
   filteredData isWithinInterval_v2 parse_ymd
     [order ''2024-01-10'' ''Toys'' ''East'', order ''2024-02-10'' ''Toys'' ''East''] inverted =
     Inl RangeError \<and>
   filteredData isWithinInterval_v3 parse_ymd
     [order ''2024-01-10'' ''Toys'' ''East'', order ''2024-02-10'' ''Toys'' ''East''] inverted =
     Inr [order ''2024-01-10'' ''Toys'' ''East'']"
proof -
  have h: "range_start inverted \<noteq> ''''" "range_end inverted \<noteq> ''''"
    "parse_ymd (range_start inverted) = Some 20240131"
    "parse_ymd (range_end inverted) = Some 20240101" "(20240101::int) < 20240131"
    by code_simp+
  have ev: "filter (\<lambda>item. (case parse_ymd (orderDate item) of
                              Some t \<Rightarrow> 20240101 \<le> t \<and> t \<le> 20240131 | None \<Rightarrow> False) \<and>
                           category_region_test inverted item)
              [order ''2024-01-10'' ''Toys'' ''East'', order ''2024-02-10'' ''Toys'' ''East''] =
            [order ''2024-01-10'' ''Toys'' ''East'']"
    by code_simp
  show ?thesis
    using filter_inverted_range [OF h, where item = "order ''2024-01-10'' ''Toys'' ''East''"
        and rest = "[order ''2024-02-10'' ''Toys'' ''East'']"
        and records = "[order ''2024-01-10'' ''Toys'' ''East'',
                        order ''2024-02-10'' ''Toys'' ''East'']"] ev
    by simp
qed

section \<open>Properties of the time series\<close>

lemma forEach_day_snoc:
  "forEach_day dayOf (xs @ [x]) acc =
   (case forEach_day dayOf xs acc of Inl e \<Rightarrow> Inl e | Inr bs \<Rightarrow> forEach_day dayOf [x] bs)"
  by (induction xs arbitrary: acc) (auto split: option.splits)

lemma forEach_day_returns:
  "(\<And>item. item \<in> set records \<Longrightarrow> dateOf item \<noteq> '''' \<Longrightarrow> dayOf (dateOf item) \<noteq> None) \<Longrightarrow>
   \<exists>bs. forEach_day dayOf records acc = Inr bs"
proof (induction records arbitrary: acc)
  case Nil
  then show ?case by simp
next
  case (Cons item items)
  have rest: "\<exists>bs. forEach_day dayOf items acc' = Inr bs" for acc'
    by (rule Cons.IH) (simp add: Cons.prems)
  show ?case
  proof (cases "dateOf item = []")
    case True
    with rest show ?thesis by simp
  next
    case False
    with Cons.prems [of item] obtain k where "dayOf (dateOf item) = Some k" by auto
    with False rest show ?thesis by simp
  qed
qed

lemma add_day_keys:
  "map day_date (add_day k s p bs) =
   (if k \<in> set (map day_date bs) then map day_date bs else map day_date bs @ [k])"
  by (induction bs) auto

lemma add_day_other:
  "b \<in> set (add_day k s p bs) \<Longrightarrow> day_date b \<noteq> k \<Longrightarrow> b \<in> set bs"
  by (induction bs) (auto split: if_splits)

lemma add_day_hit:
  "distinct (map day_date bs) \<Longrightarrow> b \<in> set (add_day k s p bs) \<Longrightarrow> day_date b = k \<Longrightarrow>
   (\<exists>b0. b0 \<in> set bs \<and> day_date b0 = k \<and>
         day_sales b = binary64 (day_sales b0 + s) \<and>
         day_profit b = binary64 (day_profit b0 + p) \<and>
         day_revenue b = binary64 (day_revenue b0 + binary64 (s - p))) \<or>
   (k \<notin> set (map day_date bs) \<and>
         day_sales b = binary64 (0 + s) \<and>
         day_profit b = binary64 (0 + p) \<and>
         day_revenue b = binary64 (0 + binary64 (s - p)))"
proof (induction bs)
  case Nil
  then show ?case by simp
next
  case (Cons a bs)
  show ?case
  proof (cases "day_date a = k")
    case True
    with Cons.prems have "b = a\<lparr>day_sales := binary64 (day_sales a + s),
             day_profit := binary64 (day_profit a + p),
             day_revenue := binary64 (day_revenue a + binary64 (s - p))\<rparr>"
      by (auto simp: image_iff)
    with True show ?thesis by auto
  next
    case False
    with Cons.prems have "b \<in> set (add_day k s p bs)" "distinct (map day_date bs)"
      by auto
    from Cons.IH [OF this(2) this(1) Cons.prems(3)] False show ?thesis by auto
  qed
qed

lemma on_day_snoc:
  "on_day dayOf k (xs @ [x]) =
   (if dayKey dayOf x = Some k then on_day dayOf k xs @ [x] else on_day dayOf k xs)"
  by (simp add: on_day_def)

lemma forEach_day_buckets:
  "forEach_day dayOf records [] = Inr bs \<Longrightarrow>
   distinct (map day_date bs) \<and>
   set (map day_date bs) = {k. on_day dayOf k records \<noteq> []} \<and>
   (\<forall>b\<in>set bs.
      day_sales b = accumulate 0 (map saleAmount (on_day dayOf (day_date b) records)) \<and>
      day_profit b = accumulate 0 (map profitAmount (on_day dayOf (day_date b) records)) \<and>
      day_revenue b =
        accumulate 0 (map (\<lambda>item. binary64 (saleAmount item - profitAmount item))
                        (on_day dayOf (day_date b) records)))"
proof (induction records arbitrary: bs rule: rev_induct)
  case Nil
  then show ?case by (simp add: on_day_def)
next
  case (snoc x xs)
  from snoc.prems obtain bs0 where bs0: "forEach_day dayOf xs [] = Inr bs0"
    and step: "forEach_day dayOf [x] bs0 = Inr bs"
    by (auto simp: forEach_day_snoc split: sum.splits)
  note IH = snoc.IH [OF bs0]
  show ?case
  proof (cases "dayKey dayOf x")
    case None
    with step have "bs = bs0"
      by (auto simp: dayKey_def split: if_splits option.splits)
    with IH None show ?thesis by (simp add: on_day_snoc)
  next
    case (Some k)
    then have d: "dateOf x \<noteq> []" "dayOf (dateOf x) = Some k"
      by (auto simp: dayKey_def split: if_splits)
    with step have bs: "bs = add_day k (saleAmount x) (profitAmount x) bs0"
      by simp
    have keys0: "set (map day_date bs0) = {k. on_day dayOf k xs \<noteq> []}"
      and dist0: "distinct (map day_date bs0)"
      using IH by simp_all
    have dist: "distinct (map day_date bs)"
      using dist0 by (simp add: bs add_day_keys)
    have keys: "set (map day_date bs) = {k. on_day dayOf k (xs @ [x]) \<noteq> []}"
      using keys0 Some by (auto simp: bs add_day_keys on_day_snoc)
    have fields: "day_sales b = accumulate 0 (map saleAmount (on_day dayOf (day_date b) (xs @ [x]))) \<and>
      day_profit b = accumulate 0 (map profitAmount (on_day dayOf (day_date b) (xs @ [x]))) \<and>
      day_revenue b =
        accumulate 0 (map (\<lambda>item. binary64 (saleAmount item - profitAmount item))
                        (on_day dayOf (day_date b) (xs @ [x])))"
      if b: "b \<in> set bs" for b
    proof (cases "day_date b = k")
      case False
      with b have "b \<in> set bs0" by (auto simp: bs dest: add_day_other)
      with IH False Some show ?thesis by (simp add: on_day_snoc)
    next
      case True
      from add_day_hit [OF dist0 b [unfolded bs] True]
      show ?thesis
      proof
        assume "\<exists>b0. b0 \<in> set bs0 \<and> day_date b0 = k \<and>
         day_sales b = binary64 (day_sales b0 + saleAmount x) \<and>
         day_profit b = binary64 (day_profit b0 + profitAmount x) \<and>
         day_revenue b = binary64 (day_revenue b0 + binary64 (saleAmount x - profitAmount x))"
        then obtain b0 where b0: "b0 \<in> set bs0" "day_date b0 = k"
          "day_sales b = binary64 (day_sales b0 + saleAmount x)"
          "day_profit b = binary64 (day_profit b0 + profitAmount x)"
          "day_revenue b = binary64 (day_revenue b0 + binary64 (saleAmount x - profitAmount x))"
          by blast
        with IH True Some show ?thesis
          by (simp add: on_day_snoc accumulate_snoc)
      next
        assume new: "k \<notin> set (map day_date bs0) \<and>
         day_sales b = binary64 (0 + saleAmount x) \<and>
         day_profit b = binary64 (0 + profitAmount x) \<and>
         day_revenue b = binary64 (0 + binary64 (saleAmount x - profitAmount x))"
        with keys0 have "on_day dayOf k xs = []" by auto
        with new True Some show ?thesis
          by (simp add: on_day_snoc accumulate_def)
      qed
    qed
    from dist keys fields show ?thesis by blast
  qed
qed

lemma subseq_on_day: "subseq (on_day dayOf k records) records"
  by (simp add: on_day_def)

lemma sum_on_days:
  assumes "\<And>item. item \<in> set records \<Longrightarrow> dayKey dayOf item \<noteq> None"
  shows "(\<Sum>k\<in>{k. on_day dayOf k records \<noteq> []}. sum_list (map f (on_day dayOf k records))) =
         (sum_list (map f records) :: rat)"
proof -
  let ?K = "{k. on_day dayOf k records \<noteq> []}"
  have K: "Some ` ?K = dayKey dayOf ` set records"
  proof
    show "Some ` ?K \<subseteq> dayKey dayOf ` set records"
      by (auto simp: on_day_def filter_empty_conv image_iff) metis
    show "dayKey dayOf ` set records \<subseteq> Some ` ?K"
    proof
      fix r assume "r \<in> dayKey dayOf ` set records"
      then obtain item where item: "item \<in> set records" "r = dayKey dayOf item" by auto
      with assms obtain k where k: "dayKey dayOf item = Some k" by auto
      with item have "on_day dayOf k records \<noteq> []"
        by (auto simp: on_day_def filter_empty_conv)
      with item k show "r \<in> Some ` ?K" by auto
    qed
  qed
  have fin: "finite (Some ` ?K)" by (simp add: K)
  have "(\<Sum>k\<in>?K. sum_list (map f (on_day dayOf k records))) =
        (\<Sum>r\<in>Some ` ?K. sum_list (map f (filter (\<lambda>item. dayKey dayOf item = r) records)))"
    by (simp add: sum.reindex on_day_def)
  also have "\<dots> = sum_list (map f records)"
    by (rule sum_fibers [OF fin]) (simp add: K)
  finally show ?thesis .
qed

text \<open>
  With rounding the sums differ. Three sales of 602.42, 379.83 and 28.17, the first and the
  third on one day: the bucket of that day holds 630.5899999999999, and the sales of the
  two buckets do not add up to the sale amounts of the three records, neither as exact
  sums nor as sums computed in floating point (1010.4199999999998 against 1010.42).
\<close>

theorem aggregateByDay_sales_total_counterexample:
  "processData parse_ymd cent_sales = Inr cent_buckets \<and>
   sum_list (map day_sales cent_buckets) \<noteq> sum_list (map saleAmount cent_sales) \<and>
   accumulate 0 (map day_sales cent_buckets) =
     binary64 (10104199999999998 / 10000000000000) \<and>
   accumulate 0 (map saleAmount cent_sales) = binary64 (101042 / 100) \<and>
   binary64 (10104199999999998 / 10000000000000) \<noteq> binary64 (101042 / 100)"
  by code_simp

text \<open>
  C1 (as amended): when every record has a date that is present and parses, the
  aggregation returns one bucket for each day of the input, and the \<^verbatim>\<open>sales\<close> of a bucket
  is what \<^verbatim>\<open>+=\<close> leaves after adding the sale amounts of the records of its day in record
  order, each addition rounded. When rounding changes the sum of the sale amounts of no
  subsequence of the records, the sales of the buckets add up to the sale amounts of the
  input records.
\<close>

theorem aggregateByDay_sales_total:
  assumes "\<forall>item \<in> set records. dateOf item \<noteq> '''' \<and> dayOf (dateOf item) \<noteq> None"
  shows "\<exists>buckets. processData dayOf records = Inr buckets \<and>
           distinct (map day_date buckets) \<and>
           set (map day_date buckets) = {k. on_day dayOf k records \<noteq> []} \<and>
           map day_sales buckets =
             map (\<lambda>b. accumulate 0 (map saleAmount (on_day dayOf (day_date b) records))) buckets \<and>
           (exact_sums saleAmount records \<longrightarrow>
              sum_list (map day_sales buckets) = sum_list (map saleAmount records))"
proof (cases "records = []")
  case True
  then show ?thesis by (simp add: processData_def on_day_def)
next
  case False
  from assms obtain bs where bs: "forEach_day dayOf records [] = Inr bs"
    using forEach_day_returns [of records dayOf "[]"] by blast
  note inv = forEach_day_buckets [OF bs]
  let ?out = "sort_key day_date bs"
  have out: "processData dayOf records = Inr ?out"
    using False bs by (simp add: processData_def)
  have dist: "distinct (map day_date ?out)"
    using inv by (simp add: distinct_map)
  have keys: "set (map day_date ?out) = {k. on_day dayOf k records \<noteq> []}"
    using inv by simp
  have sales: "map day_sales ?out =
      map (\<lambda>b. accumulate 0 (map saleAmount (on_day dayOf (day_date b) records))) ?out"
    using inv by simp
  have total: "sum_list (map day_sales ?out) = sum_list (map saleAmount records)"
    if ex: "exact_sums saleAmount records"
  proof -
    have valid: "\<And>item. item \<in> set records \<Longrightarrow> dayKey dayOf item \<noteq> None"
      using assms by (simp add: dayKey_def)
    have "sum_list (map day_sales ?out) = sum_list (map day_sales bs)"
      by (rule sum_list_sort_key)
    also have "\<dots> = sum_list (map (\<lambda>k. sum_list (map saleAmount (on_day dayOf k records)))
                                (map day_date bs))"
    proof -
      have "day_sales b = sum_list (map saleAmount (on_day dayOf (day_date b) records))"
        if "b \<in> set bs" for b
        using inv that accumulate_plain_exact_sums [OF ex subseq_on_day, of dayOf "day_date b"]
        by simp
      then have m: "map day_sales bs =
          map (\<lambda>b. sum_list (map saleAmount (on_day dayOf (day_date b) records))) bs"
        by simp
      have "sum_list (map day_sales bs) =
          sum_list (map (\<lambda>b. sum_list (map saleAmount (on_day dayOf (day_date b) records))) bs)"
        by (simp only: m)
      also have "\<dots> = sum_list (map (\<lambda>k. sum_list (map saleAmount (on_day dayOf k records)))
                                (map day_date bs))"
        by (simp add: comp_def)
      finally show ?thesis .
    qed
    also have "\<dots> = (\<Sum>k\<in>set (map day_date bs).
                        sum_list (map saleAmount (on_day dayOf k records)))"
      by (rule sum_list_distinct_conv_sum_set) (use inv in blast)
    also have "\<dots> = sum_list (map saleAmount records)"
      using inv sum_on_days [OF valid] by simp
    finally show ?thesis .
  qed
  from out dist keys sales total show ?thesis by blast
qed

text \<open>
  At a concrete input: three sales of 5.5, 10.25 and 20 on two days, given out of order.
  No sum of them is rounded; two buckets come out, in date order, and the total of 35.75
  is that of the input.
\<close>

theorem aggregateByDay_sales_total_witness:
  "list_all (\<lambda>item. dateOf item \<noteq> '''' \<and> parse_ymd (dateOf item) \<noteq> None) three_sales \<and>
   exact_sums saleAmount three_sales \<and>
   processData parse_ymd three_sales =
     Inr [\<lparr>day_date = 20240101, day_sales = 121 / 4, day_profit = 5, day_revenue = 101 / 4\<rparr>,
          \<lparr>day_date = 20240102, day_sales = 11 / 2, day_profit = 1, day_revenue = 9 / 2\<rparr>] \<and>
   sum_list (map saleAmount three_sales) = 143 / 4"
proof -
  have hl: "list_all (\<lambda>item. dateOf item \<noteq> '''' \<and> parse_ymd (dateOf item) \<noteq> None) three_sales"
    by code_simp
  then have h: "\<forall>item \<in> set three_sales. dateOf item \<noteq> '''' \<and> parse_ymd (dateOf item) \<noteq> None"
    by (simp only: list_all_iff)
  have ex: "exact_sums saleAmount three_sales"
    by code_simp
  have ev: "processData parse_ymd three_sales =
     Inr [\<lparr>day_date = 20240101, day_sales = 121 / 4, day_profit = 5, day_revenue = 101 / 4\<rparr>,
          \<lparr>day_date = 20240102, day_sales = 11 / 2, day_profit = 1, day_revenue = 9 / 2\<rparr>]"
    by code_simp
  from aggregateByDay_sales_total [OF h] ex obtain buckets
    where "processData parse_ymd three_sales = Inr buckets"
      and s: "sum_list (map day_sales buckets) = sum_list (map saleAmount three_sales)"
    by blast
  with ev have "sum_list (map saleAmount three_sales) = 143 / 4" by auto
  with hl ex ev show ?thesis by blast
qed

text \<open>
  With rounding the two computations differ. Two sales of one day, 450.81 with profit 3.54
  and 13.7 with profit 54.37: the accumulated revenue is 406.59999999999997, and the
  bucket's sales minus the bucket's profit, 464.51 - 57.91, is 406.6.
\<close>

theorem aggregateByDay_revenue_counterexample:
  "processData parse_ymd same_day_sales =
     Inr [\<lparr>day_date = 20240101, day_sales = binary64 (46451 / 100),
           day_profit = binary64 (5791 / 100),
           day_revenue = binary64 (40659999999999997 / 100000000000000)\<rparr>] \<and>
   spec_revenue \<lparr>day_date = 20240101 :: int, day_sales = binary64 (46451 / 100),
           day_profit = binary64 (5791 / 100),
           day_revenue = binary64 (40659999999999997 / 100000000000000)\<rparr> =
     binary64 (4066 / 10) \<and>
   binary64 (40659999999999997 / 100000000000000) \<noteq> binary64 (4066 / 10)"
  by code_simp

text \<open>
  C9 (as amended): in every bucket the aggregation returns, the revenue accumulated record
  by record as \<^verbatim>\<open>saleAmount - profitAmount\<close> equals the bucket's sales minus the bucket's
  profit, provided that rounding changes no sum, over a subsequence of the records, of
  the sale amounts, of the profit amounts or of their differences.
\<close>

theorem aggregateByDay_revenue:
  assumes "processData dayOf records = Inr buckets"
    and "exact_sums saleAmount records" and "exact_sums profitAmount records"
    and "exact_sums (\<lambda>item. saleAmount item - profitAmount item) records"
  shows "map day_revenue buckets = map spec_revenue buckets"
proof (cases "records = []")
  case True
  with assms(1) show ?thesis by (simp add: processData_def)
next
  case False
  with assms(1) obtain bs where bs: "forEach_day dayOf records [] = Inr bs"
    and sorted: "buckets = sort_key day_date bs"
    by (auto simp: processData_def split: sum.splits)
  note inv = forEach_day_buckets [OF bs]
  have "day_revenue b = spec_revenue b" if b: "b \<in> set bs" for b
  proof -
    let ?day = "on_day dayOf (day_date b) records"
    have s: "day_sales b = sum_list (map saleAmount ?day)"
      using inv b accumulate_plain_exact_sums [OF assms(2) subseq_on_day] by simp
    have p: "day_profit b = sum_list (map profitAmount ?day)"
      using inv b accumulate_plain_exact_sums [OF assms(3) subseq_on_day] by simp
    have r: "day_revenue b = sum_list (map (\<lambda>item. saleAmount item - profitAmount item) ?day)"
      using inv b accumulate_exact_sums [OF assms(4) subseq_on_day] by simp
    have diff: "sum_list (map (\<lambda>item. saleAmount item - profitAmount item) ?day) =
          sum_list (map saleAmount ?day) - sum_list (map profitAmount ?day)"
      by (rule sum_list_subtractf)
    have "binary64 (sum_list (map (\<lambda>item. saleAmount item - profitAmount item) ?day)) =
          sum_list (map (\<lambda>item. saleAmount item - profitAmount item) ?day)"
      by (rule exact_sumsD [OF assms(4) subseq_on_day])
    with s p r diff show ?thesis by (simp add: spec_revenue_def)
  qed
  then show ?thesis by (simp add: sorted)
qed

text \<open>
  At a concrete input: the three sales above, with profits 1, 2 and 3; the two buckets
  have revenue 25.25 and 4.5 by either computation.
\<close>

theorem aggregateByDay_revenue_witness:
  "exact_sums saleAmount three_sales \<and> exact_sums profitAmount three_sales \<and>
   exact_sums (\<lambda>item. saleAmount item - profitAmount item) three_sales \<and>
   processData parse_ymd three_sales =
     Inr [\<lparr>day_date = 20240101, day_sales = 121 / 4, day_profit = 5, day_revenue = 101 / 4\<rparr>,
          \<lparr>day_date = 20240102, day_sales = 11 / 2, day_profit = 1, day_revenue = 9 / 2\<rparr>] \<and>
   map spec_revenue
     [\<lparr>day_date = 20240101 :: int, day_sales = 121 / 4, day_profit = 5, day_revenue = 101 / 4\<rparr>,
      \<lparr>day_date = 20240102, day_sales = 11 / 2, day_profit = 1, day_revenue = 9 / 2\<rparr>] =
     [101 / 4, 9 / 2]"
proof -
  have ex: "exact_sums saleAmount three_sales" "exact_sums profitAmount three_sales"
    "exact_sums (\<lambda>item. saleAmount item - profitAmount item) three_sales"
    by code_simp+
  have ev: "processData parse_ymd three_sales =
     Inr [\<lparr>day_date = 20240101, day_sales = 121 / 4, day_profit = 5, day_revenue = 101 / 4\<rparr>,
          \<lparr>day_date = 20240102, day_sales = 11 / 2, day_profit = 1, day_revenue = 9 / 2\<rparr>]"
    by code_simp
  from aggregateByDay_revenue [OF ev ex] have
    "map spec_revenue
     [\<lparr>day_date = 20240101 :: int, day_sales = 121 / 4, day_profit = 5, day_revenue = 101 / 4\<rparr>,
      \<lparr>day_date = 20240102, day_sales = 11 / 2, day_profit = 1, day_revenue = 9 / 2\<rparr>] =
     [101 / 4, 9 / 2]"
    by simp
  with ex ev show ?thesis by blast
qed

text \<open>
  C5: the aggregation by day is not total. A date that is present but does not parse is
  not skipped like a missing one: \<^verbatim>\<open>format\<close> throws on the Invalid Date and the exception
  leaves \<^verbatim>\<open>processData\<close>. The record with no date is skipped, and the filter drops the
  record with the unparseable date without throwing, under either behaviour of the library.
\<close>

theorem aggregateByDay_unparseable_date:
  "processData parse_ymd [sale ''not a date'' 20 3] = Inl RangeError \<and>
   processData parse_ymd [sale '''' 20 3] = Inr [] \<and>
   filteredData isWithinInterval_v2 parse_ymd [sale ''not a date'' 20 3] january = Inr [] \<and>
   filteredData isWithinInterval_v3 parse_ymd [sale ''not a date'' 20 3] january = Inr []"
  by code_simp

section \<open>Properties of the facets\<close>

lemma set_set_add: "set (set_add x xs) = insert x (set xs)"
  by (auto simp: set_add_def)

lemma distinct_set_add: "distinct xs \<Longrightarrow> distinct (set_add x xs)"
  by (simp add: set_add_def)

lemma foldl_facet_step:
  "foldl facet_step (cs, rs) xs = (cs', rs') \<Longrightarrow>
   set cs' = set cs \<union> set (filter (\<lambda>c. c \<noteq> '''') (map category xs)) \<and>
   set rs' = set rs \<union> set (filter (\<lambda>r. r \<noteq> '''') (map region xs)) \<and>
   (distinct cs \<longrightarrow> distinct cs') \<and> (distinct rs \<longrightarrow> distinct rs')"
proof (induction xs arbitrary: cs rs)
  case Nil
  then show ?case by simp
next
  case (Cons x xs)
  have step: "facet_step (cs, rs) x =
       (if category x \<noteq> [] then set_add (category x) cs else cs,
        if region x \<noteq> [] then set_add (region x) rs else rs)"
    by (simp add: facet_step_def)
  from Cons.prems have "foldl facet_step (facet_step (cs, rs) x) xs = (cs', rs')"
    by simp
  then have
    "foldl facet_step
       (if category x \<noteq> [] then set_add (category x) cs else cs,
        if region x \<noteq> [] then set_add (region x) rs else rs) xs = (cs', rs')"
    by (simp only: step)
  from Cons.IH [OF this] show ?case
    by (auto simp: set_set_add distinct_set_add)
qed

text \<open>
  C8: the category and region facets are sorted and free of duplicates, their elements are
  exactly the non-empty categories and regions of the records in the component state, and
  replacing the filter object of the state leaves them as they are.
\<close>

theorem facets_of_unfiltered_records:
  "sorted (categories (Home_facets h)) \<and> distinct (categories (Home_facets h)) \<and>
   set (categories (Home_facets h)) = set (filter (\<lambda>c. c \<noteq> '''') (map category (data h))) \<and>
   sorted (regions (Home_facets h)) \<and> distinct (regions (Home_facets h)) \<and>
   set (regions (Home_facets h)) = set (filter (\<lambda>r. r \<noteq> '''') (map region (data h))) \<and>
   Home_facets (h\<lparr>filters := f\<rparr>) = Home_facets h"
proof -
  obtain cs rs where fold: "foldl facet_step ([], []) (data h) = (cs, rs)"
    by (cases "foldl facet_step ([], []) (data h)")
  from foldl_facet_step [OF fold] have
    "set cs = set (filter (\<lambda>c. c \<noteq> '''') (map category (data h)))"
    "set rs = set (filter (\<lambda>r. r \<noteq> '''') (map region (data h)))"
    "distinct cs" "distinct rs"
    by simp_all
  then show ?thesis
    by (simp add: Home_facets_def deriveFacets_def fold)
qed

text \<open>
  At a concrete input: four orders, one without category and one without region; the
  facets are the same under the January filter and under another filter object.
\<close>

theorem facets_of_unfiltered_records_witness:
  "Home_facets shop = \<lparr>categories = [''Books'', ''Toys''], regions = [''East'', ''West'']\<rparr> \<and>
   Home_facets (shop\<lparr>filters := inverted\<rparr>) =
     \<lparr>categories = [''Books'', ''Toys''], regions = [''East'', ''West'']\<rparr>"
proof -
  have ev: "Home_facets shop =
     \<lparr>categories = [''Books'', ''Toys''], regions = [''East'', ''West'']\<rparr>"
    by code_simp
  from facets_of_unfiltered_records [of shop inverted] ev show ?thesis by simp
qed

section \<open>Properties of the top products\<close>











text \<open>
  With the binding the file imports, the call of \<^verbatim>\<open>useMemo\<close> throws before anything is
  computed.
\<close>

lemma topProducts_import:
  "topProducts recharts_useMemo isMobile records = Inl TypeError"
  by (simp add: topProducts_def recharts_useMemo_def)

section \<open>Properties of the regional sales\<close>































text \<open>
  A region named like a method every object inherits makes the aggregation throw, and the
  records of a region named \<^verbatim>\<open>__proto__\<close> are left out; these are the keys the hypothesis
  of the theorem on totals excludes.
\<close>

lemma regional_inherited_keys:
  "chartData False [line ''East'' 10 1, line ''constructor'' 10 1] = Inl TypeError \<and>
   chartData False [line ''East'' 10 1, line ''__proto__'' 10 1] =
     Inr [\<lparr>chart_name = ''East'', chart_value = 10\<rparr>]"
  by code_simp

end
